theory Spec2Isabelle
  imports Main "HOL-Library.Word"
begin

section \<open>Source data: the collate functions of \<^verbatim>\<open>src_data.py\<close>\<close>

text \<open>
  The module \<^verbatim>\<open>sparse_autoencoder/src_model/src_data.py\<close> holds two collate functions,
  \<^verbatim>\<open>collate_neel_c4_tokenized\<close> and \<^verbatim>\<open>collate_pile\<close>, and the factory
  \<^verbatim>\<open>create_dataloader\<close>. This theory embeds the two collate functions. The factory has no
  logic of its own: it hands its arguments to \<^verbatim>\<open>load_dataset\<close>, to the dataset's
  \<^verbatim>\<open>shuffle\<close> and to the \<^verbatim>\<open>DataLoader\<close> constructor, all three defined outside the module.

  A dataset item is a Python \<^verbatim>\<open>dict\<close> keyed by field name; a subscript on a missing key
  raises \<^verbatim>\<open>KeyError\<close>. Exceptions are values of the type \<open>error\<close>, and a function that may
  raise returns \<open>error + 'a\<close> with \<open>Inl\<close> carrying the exception.
\<close>

subsection \<open>Items, errors and tensors\<close>

type_synonym 'v py_dict = "string \<rightharpoonup> 'v"

datatype error =
    KeyError string
  | ShapeMismatch nat nat
  | Overflow int
  | Upstream string

text \<open>
  \<open>ShapeMismatch e g\<close> stands for the \<^verbatim>\<open>ValueError\<close> that \<^verbatim>\<open>torch.tensor\<close> raises on a
  ragged nested list ("expected sequence of length \<open>e\<close> at dim 1 (got \<open>g\<close>)").
  \<open>Overflow v\<close> stands for the \<^verbatim>\<open>RuntimeError\<close> it raises on a Python integer \<open>v\<close> that does
  not fit the tensor's element type. \<open>Upstream\<close> is whatever the tokenizer raises.

  A tensor is its shape together with its elements in row-major order. A tensor built from
  Python integers has dtype \<^verbatim>\<open>int64\<close>, and so have the tensors a tokenizer returns: an
  element is a 64-bit word, read as two's complement by \<open>sint\<close>.
\<close>

type_synonym int64 = "64 word"

datatype tensor = Tensor (shape: "nat list") (data: "int64 list")

text \<open>The Python integers an \<^verbatim>\<open>int64\<close> element can hold.\<close>

definition fits_int64 :: "int \<Rightarrow> bool" where
  "fits_int64 v = (- (2 ^ 63) \<le> v \<and> v < 2 ^ 63)"

text \<open>
  \<^verbatim>\<open>torch.tensor\<close> on a list of integer lists. The empty list gives the one-dimensional
  tensor of shape \<open>(0,)\<close>. Otherwise the shape is read off the list and its first row alone,
  \<open>(len(rows), len(rows[0]))\<close>, and storage of that shape is allocated. Only when the shape
  has elements are the rows walked in order to fill it: a row whose length is not the width
  raises, then each of its integers is converted and one out of range raises. When the
  first row is empty the shape has no elements, nothing is walked, and the later rows are
  never looked at.
\<close>

fun store_scalars :: "int list \<Rightarrow> error + int64 list" where
  "store_scalars [] = Inr []"
| "store_scalars (v # vs) =
     (if fits_int64 v
      then (case store_scalars vs of Inl e \<Rightarrow> Inl e | Inr ws \<Rightarrow> Inr (word_of_int v # ws))
      else Inl (Overflow v))"

fun recursive_store :: "nat \<Rightarrow> int list list \<Rightarrow> error + int64 list" where
  "recursive_store w [] = Inr []"
| "recursive_store w (r # rs) =
     (if length r \<noteq> w then Inl (ShapeMismatch w (length r))
      else (case store_scalars r of
              Inl e \<Rightarrow> Inl e
            | Inr ws \<Rightarrow>
                (case recursive_store w rs of Inl e \<Rightarrow> Inl e | Inr d \<Rightarrow> Inr (ws @ d))))"

definition torch_tensor :: "int list list \<Rightarrow> error + tensor" where
  "torch_tensor rows =
     (case rows of
        [] \<Rightarrow> Inr (Tensor [0] [])
      | r # rs \<Rightarrow>
          (if length rows * length r = 0 then Inr (Tensor [length rows, length r] [])
           else (case recursive_store (length r) rows of
                   Inl e \<Rightarrow> Inl e
                 | Inr d \<Rightarrow> Inr (Tensor [length rows, length r] d))))"

text \<open>\<^verbatim>\<open>torch.ones_like\<close>: same shape, every element one.\<close>

definition torch_ones_like :: "tensor \<Rightarrow> tensor" where
  "torch_ones_like t = Tensor (shape t) (replicate (prod_list (shape t)) 1)"

text \<open>
  Reading a two-dimensional tensor back as a list of rows of Python integers
  (\<^verbatim>\<open>Tensor.tolist\<close>); \<open>None\<close> for a tensor of any other rank.
\<close>

fun split_rows :: "nat \<Rightarrow> nat \<Rightarrow> 'a list \<Rightarrow> 'a list list" where
  "split_rows 0 w xs = []"
| "split_rows (Suc n) w xs = take w xs # split_rows n w (drop w xs)"

definition tolist :: "tensor \<Rightarrow> int list list option" where
  "tolist t =
     (case shape t of [n, w] \<Rightarrow> Some (map (map sint) (split_rows n w (data t))) | _ \<Rightarrow> None)"

subsection \<open>The list comprehension over a field\<close>

text \<open>\<^verbatim>\<open>d[k]\<close> on a dict.\<close>

definition getitem :: "'v py_dict \<Rightarrow> string \<Rightarrow> error + 'v" where
  "getitem d k = (case d k of None \<Rightarrow> Inl (KeyError k) | Some v \<Rightarrow> Inr v)"

text \<open>\<^verbatim>\<open>[i[k] for i in batch]\<close>: items are visited in order, the first missing key raises.\<close>

fun field_of_each :: "string \<Rightarrow> 'v py_dict list \<Rightarrow> error + 'v list" where
  "field_of_each k [] = Inr []"
| "field_of_each k (i # batch) =
     (case getitem i k of
        Inl e \<Rightarrow> Inl e
      | Inr v \<Rightarrow> (case field_of_each k batch of Inl e \<Rightarrow> Inl e | Inr vs \<Rightarrow> Inr (v # vs)))"

subsection \<open>\<^verbatim>\<open>collate_neel_c4_tokenized\<close>\<close>

definition collate_neel_c4_tokenized :: "int list py_dict list \<Rightarrow> error + tensor \<times> tensor" where
  "collate_neel_c4_tokenized batch =
     (case field_of_each ''tokens'' batch of
        Inl e \<Rightarrow> Inl e
      | Inr tokens \<Rightarrow>
          (case torch_tensor tokens of
             Inl e \<Rightarrow> Inl e
           | Inr tokenized \<Rightarrow> Inr (tokenized, torch_ones_like tokenized)))"

subsection \<open>The tokenizer capability\<close>

text \<open>
  \<^verbatim>\<open>collate_pile\<close> receives a HuggingFace tokenizer and calls it with the texts and four
  keyword arguments. The tokenizer is an object of its own, so the model takes it as a
  parameter: a function from the call's arguments and the tokenizer's state to either an
  exception or a batch encoding, together with the tokenizer's state after the call.
\<close>

record tokenizer_call =
  call_texts :: "string list"
  return_tensors :: string
  padding :: bool
  truncation :: bool
  max_length :: nat

record batch_encoding =
  input_ids :: tensor
  attention_mask :: tensor

type_synonym 's tokenizer = "tokenizer_call \<Rightarrow> 's \<Rightarrow> (error + batch_encoding) \<times> 's"

subsection \<open>\<^verbatim>\<open>collate_pile\<close>\<close>

definition collate_pile ::
  "string py_dict list \<Rightarrow> 's tokenizer \<Rightarrow> 's \<Rightarrow> (error + tensor \<times> tensor) \<times> 's" where
  "collate_pile batch tokenizer s =
     (case field_of_each ''text'' batch of
        Inl e \<Rightarrow> (Inl e, s)
      | Inr texts \<Rightarrow>
          (case tokenizer \<lparr>call_texts = texts, return_tensors = ''pt'', padding = True,
                           truncation = True, max_length = 512\<rparr> s of
             (Inl e, s') \<Rightarrow> (Inl e, s')
           | (Inr tokenized, s') \<Rightarrow> (Inr (input_ids tokenized, attention_mask tokenized), s')))"

subsection \<open>Observing and constraining a tokenizer\<close>

text \<open>A tokenizer wrapped so that its state also lists the calls it has received.\<close>

definition recording :: "'s tokenizer \<Rightarrow> ('s \<times> tokenizer_call list) tokenizer" where
  "recording tokenizer call =
     (\<lambda>(s, calls). case tokenizer call s of (r, s') \<Rightarrow> (r, (s', calls @ [call])))"

text \<open>
  What the tokenizer is expected to deliver: ids and mask of one shape, one row per input
  text, and the padding id wherever the mask is zero.
\<close>

definition padded_with :: "int64 \<Rightarrow> tensor \<Rightarrow> tensor \<Rightarrow> bool" where
  "padded_with pad ids msk = list_all2 (\<lambda>i m. m = 0 \<longrightarrow> i = pad) (data ids) (data msk)"

definition batch_aligned :: "nat \<Rightarrow> tensor \<Rightarrow> bool" where
  "batch_aligned n t = (case shape t of [] \<Rightarrow> False | b # _ \<Rightarrow> b = n)"

definition encoding_ok :: "int64 \<Rightarrow> nat \<Rightarrow> batch_encoding \<Rightarrow> bool" where
  "encoding_ok pad n enc =
     (shape (input_ids enc) = shape (attention_mask enc)
      \<and> batch_aligned n (input_ids enc)
      \<and> padded_with pad (input_ids enc) (attention_mask enc))"

definition tokenizer_contract :: "int64 \<Rightarrow> 's tokenizer \<Rightarrow> bool" where
  "tokenizer_contract pad tokenizer =
     (\<forall>call s enc s'. tokenizer call s = (Inr enc, s') \<longrightarrow>
        encoding_ok pad (length (call_texts call)) enc)"

text \<open>
  A small tokenizer to run the collator on: one token per character (its code), rows cut
  at \<open>max_length\<close> when truncation is on, every row padded on the right to the longest one.
  Its state counts the calls.
\<close>

definition char_tokenizer :: "int64 \<Rightarrow> nat tokenizer" where
  "char_tokenizer pad call s =
     (let rows = map (\<lambda>t. (if truncation call then take (max_length call) else id)
                            (map (\<lambda>c. of_nat (of_char c)) t)) (call_texts call);
          w = foldr (\<lambda>r. max (length r)) rows 0
      in (Inr \<lparr>input_ids = Tensor [length rows, w]
                  (concat (map (\<lambda>r. r @ replicate (w - length r) pad) rows)),
               attention_mask = Tensor [length rows, w]
                  (concat (map (\<lambda>r. replicate (length r) 1 @ replicate (w - length r) 0) rows))\<rparr>,
          Suc s))"

section \<open>Auxiliary facts\<close>

subsection \<open>The comprehension\<close>

lemma field_of_each_present:
  "\<forall>i\<in>set batch. i k \<noteq> None \<Longrightarrow> field_of_each k batch = Inr (map (\<lambda>i. the (i k)) batch)"
  by (induction batch) (auto simp: getitem_def)

lemma field_of_each_agree:
  "list_all2 (\<lambda>a b. a k = b k) xs ys \<Longrightarrow> field_of_each k xs = field_of_each k ys"
  by (induction xs ys rule: list_all2_induct)
    (simp_all add: getitem_def split: option.splits sum.splits)

lemma field_of_each_length:
  "field_of_each k batch = Inr vs \<Longrightarrow> length vs = length batch"
  by (induction batch arbitrary: vs) (auto split: sum.splits)

subsection \<open>Rows of a tensor\<close>

lemma split_rows_concat:
  "\<forall>r\<in>set rows. length r = w \<Longrightarrow> split_rows (length rows) w (concat rows) = rows"
  by (induction rows) auto

lemma split_rows_replicate:
  "split_rows n w (replicate (n * w) x) = replicate n (replicate w x)"
  by (induction n) (simp_all add: replicate_add)

lemma split_rows_empty: "split_rows n 0 [] = replicate n []"
  by (induction n) simp_all

lemma sint_word_of_int_fits:
  "fits_int64 v \<Longrightarrow> sint (word_of_int v :: int64) = v"
  by (simp add: fits_int64_def sint_sbintrunc' signed_take_bit_int_eq_self)

subsection \<open>Filling a tensor\<close>

lemma store_scalars_fits:
  "\<forall>v\<in>set vs. fits_int64 v \<Longrightarrow> store_scalars vs = Inr (map word_of_int vs)"
  by (induction vs) auto

lemma store_scalars_length:
  "store_scalars vs = Inr ws \<Longrightarrow> length ws = length vs"
  by (induction vs arbitrary: ws) (auto split: if_splits sum.splits)

lemma store_scalars_overflow:
  "store_scalars vs = Inl e \<Longrightarrow> \<exists>v\<in>set vs. \<not> fits_int64 v \<and> e = Overflow v"
  by (induction vs) (auto split: if_splits sum.splits)

lemma recursive_store_uniform:
  assumes "\<forall>r\<in>set rows. length r = w" and "\<forall>r\<in>set rows. \<forall>v\<in>set r. fits_int64 v"
  shows "recursive_store w rows = Inr (concat (map (map word_of_int) rows))"
  using assms by (induction rows) (auto simp: store_scalars_fits)

lemma recursive_store_length:
  "recursive_store w rows = Inr d \<Longrightarrow> length d = length rows * w"
  by (induction rows arbitrary: d)
    (auto split: if_splits sum.splits dest: store_scalars_length)

lemma recursive_store_ragged:
  "\<exists>r\<in>set rows. length r \<noteq> w \<Longrightarrow> \<exists>e. recursive_store w rows = Inl e"
proof (induction rows)
  case Nil
  then show ?case by simp
next
  case (Cons a rows)
  show ?case
  proof (cases "length a = w")
    case True
    with Cons.prems have "\<exists>r\<in>set rows. length r \<noteq> w" by auto
    from Cons.IH[OF this] obtain e where "recursive_store w rows = Inl e" ..
    with True show ?thesis by (simp split: sum.splits)
  next
    case False
    then show ?thesis by simp
  qed
qed

lemma recursive_store_ragged_fits:
  assumes "\<exists>r\<in>set rows. length r \<noteq> w" and "\<forall>r\<in>set rows. \<forall>v\<in>set r. fits_int64 v"
  shows "\<exists>g. recursive_store w rows = Inl (ShapeMismatch w g) \<and> w \<noteq> g"
  using assms
proof (induction rows)
  case Nil
  then show ?case by simp
next
  case (Cons a rows)
  show ?case
  proof (cases "length a = w")
    case True
    with Cons.prems have "\<exists>r\<in>set rows. length r \<noteq> w"
      and "\<forall>r\<in>set rows. \<forall>v\<in>set r. fits_int64 v" by auto
    from Cons.IH[OF this] obtain g
      where "recursive_store w rows = Inl (ShapeMismatch w g)" and "w \<noteq> g" by blast
    moreover from Cons.prems have "store_scalars a = Inr (map word_of_int a)"
      by (simp add: store_scalars_fits)
    ultimately show ?thesis using True by simp
  next
    case False
    then show ?thesis by auto
  qed
qed

lemma torch_tensor_uniform:
  assumes "rows \<noteq> []" and "\<forall>r\<in>set rows. length r = w"
    and "\<forall>r\<in>set rows. \<forall>v\<in>set r. fits_int64 v"
  shows "torch_tensor rows = Inr (Tensor [length rows, w] (concat (map (map word_of_int) rows)))"
proof -
  from assms(1) obtain r rs where rows: "rows = r # rs" by (cases rows) auto
  with assms(2) have w: "length r = w" by simp
  show ?thesis
  proof (cases "w = 0")
    case True
    with assms(2) have "\<forall>r\<in>set rows. map word_of_int r = ([] :: int64 list)" by auto
    then have "concat (map (map word_of_int) rows) = ([] :: int64 list)" by simp
    with True w show ?thesis by (simp add: torch_tensor_def rows)
  next
    case False
    with w recursive_store_uniform[OF assms(2,3)] show ?thesis
      by (simp add: torch_tensor_def rows)
  qed
qed

lemma torch_tensor_ragged:
  assumes "rows \<noteq> []" and "hd rows \<noteq> []"
    and "a \<in> set rows" and "b \<in> set rows" and "length a \<noteq> length b"
  shows "\<exists>e. torch_tensor rows = Inl e"
    and "\<forall>r\<in>set rows. \<forall>v\<in>set r. fits_int64 v \<Longrightarrow>
         \<exists>e g. torch_tensor rows = Inl (ShapeMismatch e g) \<and> e \<noteq> g"
proof -
  from assms(1) obtain r rs where rows: "rows = r # rs" by (cases rows) auto
  with assms(2) have ne: "length rows * length r \<noteq> 0" by simp
  have m: "\<exists>x\<in>set rows. length x \<noteq> length r"
  proof (rule ccontr)
    assume "\<not> ?thesis"
    with assms(3,4) have "length a = length r" "length b = length r" by auto
    with assms(5) show False by simp
  qed
  from recursive_store_ragged[OF m] ne show "\<exists>e. torch_tensor rows = Inl e"
    by (auto simp: torch_tensor_def rows)
  assume "\<forall>r\<in>set rows. \<forall>v\<in>set r. fits_int64 v"
  from recursive_store_ragged_fits[OF m this] ne
  show "\<exists>e g. torch_tensor rows = Inl (ShapeMismatch e g) \<and> e \<noteq> g"
    by (auto simp: torch_tensor_def rows)
qed

lemma torch_tensor_shape:
  assumes "torch_tensor rows = Inr t"
  shows "prod_list (shape t) = length (data t)"
proof (cases rows)
  case Nil
  with assms show ?thesis by (auto simp: torch_tensor_def)
next
  case (Cons r rs)
  show ?thesis
  proof (cases "length rows * length r = 0")
    case True
    with assms Cons show ?thesis by (auto simp: torch_tensor_def)
  next
    case False
    with assms Cons obtain d where d: "recursive_store (length r) rows = Inr d"
      and t: "t = Tensor [length rows, length r] d"
      by (auto simp: torch_tensor_def split: sum.splits)
    from recursive_store_length[OF d] t show ?thesis by simp
  qed
qed

subsection \<open>The character tokenizer keeps the contract\<close>

lemma list_all2_concat_map:
  "(\<And>r. r \<in> set rows \<Longrightarrow> list_all2 P (f r) (g r)) \<Longrightarrow>
   list_all2 P (concat (map f rows)) (concat (map g rows))"
  by (induction rows) (auto intro: list_all2_appendI)

lemma padded_rows:
  "list_all2 (\<lambda>i m. m = 0 \<longrightarrow> i = (pad::int64))
     (concat (map (\<lambda>r. r @ replicate (w - length r) pad) rows))
     (concat (map (\<lambda>r. replicate (length r) (1::int64) @ replicate (w - length r) 0) rows))"
proof (rule list_all2_concat_map)
  fix r :: "int64 list"
  have "list_all2 (\<lambda>i m. m = 0 \<longrightarrow> i = pad) r (replicate (length r) (1::int64))"
    by (simp add: list_all2_conv_all_nth)
  moreover have "list_all2 (\<lambda>i m. m = 0 \<longrightarrow> i = pad)
      (replicate (w - length r) pad) (replicate (w - length r) (0::int64))"
    by (simp add: list_all2_conv_all_nth)
  ultimately show "list_all2 (\<lambda>i m. m = 0 \<longrightarrow> i = pad)
      (r @ replicate (w - length r) pad)
      (replicate (length r) (1::int64) @ replicate (w - length r) 0)"
    by (rule list_all2_appendI)
qed

lemma char_tokenizer_contract: "tokenizer_contract pad (char_tokenizer pad)"
  unfolding tokenizer_contract_def
proof (intro allI impI)
  fix call s enc s'
  assume "char_tokenizer pad call s = (Inr enc, s')"
  then show "encoding_ok pad (length (call_texts call)) enc"
    by (auto simp: char_tokenizer_def Let_def encoding_ok_def batch_aligned_def padded_with_def
        padded_rows simp del: map_map)
qed

section \<open>Properties\<close>

subsection \<open>The pretokenized collator\<close>

text \<open>
  C1. For a non-empty batch whose \<^verbatim>\<open>"tokens"\<close> sequences all have length \<open>L\<close> and hold
  integers of the \<^verbatim>\<open>int64\<close> range only, \<^verbatim>\<open>collate_neel_c4_tokenized\<close> returns a pair of
  tensors of shape \<open>(len(batch), L)\<close>: row \<open>i\<close> of the first is \<^verbatim>\<open>batch[i]["tokens"]\<close> as it
  stands, and the second holds ones only.
\<close>

theorem collate_tokenized_uniform:
  assumes "batch \<noteq> []"
    and "\<forall>i\<in>set batch. \<exists>ts. i ''tokens'' = Some ts \<and> length ts = L"
    and "\<forall>i\<in>set batch. \<forall>v\<in>set (the (i ''tokens'')). fits_int64 v"
  shows "\<exists>ids msk. collate_neel_c4_tokenized batch = Inr (ids, msk)
     \<and> shape ids = [length batch, L]
     \<and> tolist ids = Some (map (\<lambda>i. the (i ''tokens'')) batch)
     \<and> shape msk = [length batch, L]
     \<and> data msk = replicate (length batch * L) 1
     \<and> tolist msk = Some (replicate (length batch) (replicate L 1))"
proof -
  let ?tokens = "map (\<lambda>i. the (i ''tokens'')) batch"
  let ?words = "map (map word_of_int) ?tokens :: int64 list list"
  from assms(2) have f: "field_of_each ''tokens'' batch = Inr ?tokens"
    by (intro field_of_each_present) auto
  from assms(2) have u: "\<forall>r\<in>set ?tokens. length r = L" by auto
  from assms(3) have b: "\<forall>r\<in>set ?tokens. \<forall>v\<in>set r. fits_int64 v" by auto
  from assms(1) have "?tokens \<noteq> []" by simp
  from torch_tensor_uniform[OF this u b]
  have t: "torch_tensor ?tokens = Inr (Tensor [length batch, L] (concat ?words))" by simp
  from u have "\<forall>r\<in>set ?words. length r = L" by auto
  from split_rows_concat[OF this]
  have s: "split_rows (length batch) L (concat ?words) = ?words" by simp
  from b have v: "map (map sint) ?words = ?tokens"
    by (auto simp: sint_word_of_int_fits intro!: map_idI)
  have o: "map (map sint) (replicate (length batch) (replicate L (1::int64)))
      = replicate (length batch) (replicate L 1)"
    by simp
  show ?thesis
    unfolding collate_neel_c4_tokenized_def
    by (simp add: f t torch_ones_like_def tolist_def s v split_rows_replicate o
        del: map_map map_replicate)
qed

theorem collate_tokenized_uniform_witness:
  "\<exists>ids msk.
     collate_neel_c4_tokenized [[''tokens'' \<mapsto> [1, 2, 3]], [''tokens'' \<mapsto> [4, 5, 6]]]
       = Inr (ids, msk)
     \<and> shape ids = [2, 3]
     \<and> tolist ids = Some [[1, 2, 3], [4, 5, 6]]
     \<and> shape msk = [2, 3]
     \<and> data msk = [1, 1, 1, 1, 1, 1]
     \<and> tolist msk = Some [[1, 1, 1], [1, 1, 1]]"
  using collate_tokenized_uniform
    [of "[[''tokens'' \<mapsto> [1, 2, 3]], [''tokens'' \<mapsto> [4, 5, 6]]]" 3]
  by (simp add: eval_nat_numeral fits_int64_def)

text \<open>
  The bound on the integers is needed. A batch of one item whose only token is \<open>2^63\<close> is
  not empty and its sequences all have length one, yet the function raises.
\<close>

theorem collate_tokenized_uniform_counterexample:
  "collate_neel_c4_tokenized [[''tokens'' \<mapsto> [9223372036854775808]]]
     = Inl (Overflow 9223372036854775808)"
  by (simp add: collate_neel_c4_tokenized_def getitem_def torch_tensor_def fits_int64_def)

text \<open>
  C3. When every item of the batch has a \<^verbatim>\<open>"tokens"\<close> sequence, the first sequence is not
  empty and two of the sequences differ in length, \<^verbatim>\<open>collate_neel_c4_tokenized\<close> returns no
  tensors: its result is an exception of \<^verbatim>\<open>torch.tensor\<close>, which the function does not
  catch, and that exception is the shape mismatch when all the integers are of the
  \<^verbatim>\<open>int64\<close> range.
\<close>

theorem collate_tokenized_ragged:
  assumes "\<forall>i\<in>set batch. i ''tokens'' \<noteq> None"
    and "batch \<noteq> []" and "the (hd batch ''tokens'') \<noteq> []"
    and "a \<in> set batch" and "b \<in> set batch"
    and "length (the (a ''tokens'')) \<noteq> length (the (b ''tokens''))"
  shows "(\<exists>e. collate_neel_c4_tokenized batch = Inl e)
     \<and> ((\<forall>i\<in>set batch. \<forall>v\<in>set (the (i ''tokens'')). fits_int64 v) \<longrightarrow>
          (\<exists>e g. collate_neel_c4_tokenized batch = Inl (ShapeMismatch e g) \<and> e \<noteq> g))"
proof -
  let ?tokens = "map (\<lambda>i. the (i ''tokens'')) batch"
  from assms(1) have f: "field_of_each ''tokens'' batch = Inr ?tokens"
    by (rule field_of_each_present)
  from assms(2) have n: "?tokens \<noteq> []" by simp
  from assms(2,3) have h: "hd ?tokens \<noteq> []" by (simp add: hd_map)
  from assms(4,5) have m: "the (a ''tokens'') \<in> set ?tokens" "the (b ''tokens'') \<in> set ?tokens"
    by auto
  from torch_tensor_ragged(1)[OF n h m assms(6)]
  have 1: "\<exists>e. collate_neel_c4_tokenized batch = Inl e"
    by (auto simp: collate_neel_c4_tokenized_def f)
  have 2: "\<exists>e g. collate_neel_c4_tokenized batch = Inl (ShapeMismatch e g) \<and> e \<noteq> g"
    if "\<forall>i\<in>set batch. \<forall>v\<in>set (the (i ''tokens'')). fits_int64 v"
  proof -
    from that have "\<forall>r\<in>set ?tokens. \<forall>v\<in>set r. fits_int64 v" by auto
    from torch_tensor_ragged(2)[OF n h m assms(6) this]
    show ?thesis by (auto simp: collate_neel_c4_tokenized_def f)
  qed
  from 1 2 show ?thesis by blast
qed

theorem collate_tokenized_ragged_witness:
  "collate_neel_c4_tokenized
     [[''tokens'' \<mapsto> [1, 2, 3]], [''tokens'' \<mapsto> [4, 5]], [''tokens'' \<mapsto> [6, 7, 8]]]
   = Inl (ShapeMismatch 3 2)"
  using collate_tokenized_ragged
    [of "[[''tokens'' \<mapsto> [1, 2, 3]], [''tokens'' \<mapsto> [4, 5]], [''tokens'' \<mapsto> [6, 7, 8]]]"
        "[''tokens'' \<mapsto> [1, 2, 3]]" "[''tokens'' \<mapsto> [4, 5]]"]
  by (simp add: collate_neel_c4_tokenized_def getitem_def torch_tensor_def fits_int64_def)

text \<open>
  The first sequence must not be empty. When it is, the shape has no elements and no row is
  checked: an empty sequence followed by a sequence of one token gives two tensors of shape
  \<open>(2, 0)\<close> and no exception.
\<close>

theorem collate_tokenized_ragged_counterexample:
  "collate_neel_c4_tokenized [[''tokens'' \<mapsto> []], [''tokens'' \<mapsto> [1]]]
     = Inr (Tensor [2, 0] [], Tensor [2, 0] [])"
  by (simp add: collate_neel_c4_tokenized_def getitem_def torch_tensor_def torch_ones_like_def)

text \<open>
  C9. On the empty batch \<^verbatim>\<open>collate_neel_c4_tokenized\<close> does not raise: it returns two empty
  tensors of the same shape \<open>(0,)\<close>, which is one-dimensional and so not a matrix of shape
  \<open>(0, seq_len)\<close>. Whatever the batch, when the function returns, the two tensors have the
  same shape and the same number of elements.
\<close>

theorem collate_tokenized_empty_batch:
  "(\<exists>ids msk. collate_neel_c4_tokenized [] = Inr (ids, msk)
      \<and> shape ids = [0] \<and> data ids = []
      \<and> shape msk = [0] \<and> data msk = []
      \<and> length (shape ids) \<noteq> 2 \<and> tolist ids = None)
   \<and> (\<forall>batch ids msk. collate_neel_c4_tokenized batch = Inr (ids, msk) \<longrightarrow>
         shape ids = shape msk \<and> length (data ids) = length (data msk))"
proof (intro conjI allI impI)
  show "\<exists>ids msk. collate_neel_c4_tokenized [] = Inr (ids, msk)
      \<and> shape ids = [0] \<and> data ids = []
      \<and> shape msk = [0] \<and> data msk = []
      \<and> length (shape ids) \<noteq> 2 \<and> tolist ids = None"
    by (simp add: collate_neel_c4_tokenized_def torch_tensor_def torch_ones_like_def tolist_def)
next
  fix batch ids msk
  assume r: "collate_neel_c4_tokenized batch = Inr (ids, msk)"
  then obtain tokens where t: "torch_tensor tokens = Inr ids" and m: "msk = torch_ones_like ids"
    by (auto simp: collate_neel_c4_tokenized_def split: sum.splits)
  from m show "shape ids = shape msk" by (simp add: torch_ones_like_def)
  from m torch_tensor_shape[OF t] show "length (data ids) = length (data msk)"
    by (simp add: torch_ones_like_def)
qed

theorem collate_tokenized_empty_batch_witness:
  "collate_neel_c4_tokenized [] = Inr (Tensor [0] [], Tensor [0] [])
   \<and> shape (Tensor [0] []) = shape (Tensor [0] [])
   \<and> length (data (Tensor [0] [])) = length (data (Tensor [0] []))
   \<and> collate_neel_c4_tokenized [[''tokens'' \<mapsto> [7, 8]]] = Inr (Tensor [1, 2] [7, 8], Tensor [1, 2] [1, 1])
   \<and> shape (Tensor [1, 2] [7, 8]) = shape (Tensor [1, 2] [1, 1])"
proof -
  have e: "collate_neel_c4_tokenized [] = Inr (Tensor [0] [], Tensor [0] [])"
    by (simp add: collate_neel_c4_tokenized_def torch_tensor_def torch_ones_like_def)
  have o: "collate_neel_c4_tokenized [[''tokens'' \<mapsto> [7, 8]]]
      = Inr (Tensor [1, 2] [7, 8], Tensor [1, 2] [1, 1])"
    by (simp add: collate_neel_c4_tokenized_def getitem_def torch_tensor_def torch_ones_like_def
        fits_int64_def eval_nat_numeral)
  from collate_tokenized_empty_batch e o show ?thesis by blast
qed

subsection \<open>The raw-text collator\<close>

text \<open>
  C2. When every item of the batch has a \<^verbatim>\<open>"text"\<close> field, \<^verbatim>\<open>collate_pile\<close> passes the texts,
  in batch order, to the tokenizer in a single call with \<^verbatim>\<open>return_tensors="pt"\<close>, padding on,
  truncation on and \<^verbatim>\<open>max_length=512\<close>, and returns the ids and the attention mask of the
  tokenizer's answer as they are (or the tokenizer's exception). A tokenizer that records its
  calls has recorded exactly that one call afterwards.
\<close>

theorem collate_pile_delegates:
  assumes "\<forall>i\<in>set batch. i ''text'' \<noteq> None"
  shows "collate_pile batch tokenizer s =
           (case tokenizer \<lparr>call_texts = map (\<lambda>i. the (i ''text'')) batch, return_tensors = ''pt'',
                            padding = True, truncation = True, max_length = 512\<rparr> s of
              (Inl e, s') \<Rightarrow> (Inl e, s')
            | (Inr enc, s') \<Rightarrow> (Inr (input_ids enc, attention_mask enc), s'))
         \<and> snd (snd (collate_pile batch (recording tokenizer) (s, []))) =
           [\<lparr>call_texts = map (\<lambda>i. the (i ''text'')) batch, return_tensors = ''pt'',
             padding = True, truncation = True, max_length = 512\<rparr>]"
  using field_of_each_present[OF assms]
  by (simp add: collate_pile_def recording_def split: prod.splits sum.splits)

theorem collate_pile_delegates_witness:
  "collate_pile [[''text'' \<mapsto> ''a'', ''meta'' \<mapsto> ''x''], [''text'' \<mapsto> ''abc'']]
       (char_tokenizer 0) 0 =
     (Inr (Tensor [2, 3] [97, 0, 0, 97, 98, 99], Tensor [2, 3] [1, 0, 0, 1, 1, 1]), 1)
   \<and> snd (snd (collate_pile [[''text'' \<mapsto> ''a'', ''meta'' \<mapsto> ''x''], [''text'' \<mapsto> ''abc'']]
        (recording (char_tokenizer 0)) (0, []))) =
       [\<lparr>call_texts = [''a'', ''abc''], return_tensors = ''pt'',
         padding = True, truncation = True, max_length = 512\<rparr>]"
  using collate_pile_delegates
    [of "[[''text'' \<mapsto> ''a'', ''meta'' \<mapsto> ''x''], [''text'' \<mapsto> ''abc'']]" "char_tokenizer 0" 0]
  by (simp add: char_tokenizer_def)

text \<open>
  C4. If the tokenizer keeps its contract (ids and mask of one shape, one row per text, the
  padding id wherever the mask is zero), then whatever \<^verbatim>\<open>collate_pile\<close> returns has ids and
  mask of one shape, and the id is the padding id at every position where the mask is zero.
\<close>

theorem collate_pile_respects_contract:
  assumes "tokenizer_contract pad tokenizer"
    and "collate_pile batch tokenizer s = (Inr (ids, msk), s')"
  shows "shape ids = shape msk
     \<and> length (data ids) = length (data msk)
     \<and> (\<forall>k<length (data msk). data msk ! k = 0 \<longrightarrow> data ids ! k = pad)
     \<and> batch_aligned (length batch) ids"
proof -
  from assms(2) obtain texts enc where
    f: "field_of_each ''text'' batch = Inr texts" and
    t: "tokenizer \<lparr>call_texts = texts, return_tensors = ''pt'', padding = True,
                    truncation = True, max_length = 512\<rparr> s = (Inr enc, s')" and
    e: "ids = input_ids enc" "msk = attention_mask enc"
    by (auto simp: collate_pile_def split: sum.splits prod.splits)
  from f have len: "length texts = length batch" by (rule field_of_each_length)
  from assms(1) t have "encoding_ok pad (length texts) enc"
    unfolding tokenizer_contract_def by fastforce
  with e len show ?thesis
    by (auto simp: encoding_ok_def padded_with_def list_all2_conv_all_nth)
qed

theorem collate_pile_respects_contract_witness:
  "tokenizer_contract 0 (char_tokenizer 0)
   \<and> collate_pile [[''text'' \<mapsto> ''a''], [''text'' \<mapsto> ''abc'']] (char_tokenizer 0) 0 =
       (Inr (Tensor [2, 3] [97, 0, 0, 97, 98, 99], Tensor [2, 3] [1, 0, 0, 1, 1, 1]), 1)
   \<and> shape (Tensor [2, 3] [97, 0, 0, 97, 98, 99]) = shape (Tensor [2, 3] [1, 0, 0, 1, 1, 1])
   \<and> data (Tensor [2, 3] [1, 0, 0, 1, 1, 1]) ! 1 = 0
   \<and> data (Tensor [2, 3] [97, 0, 0, 97, 98, 99]) ! 1 = 0
   \<and> batch_aligned 2 (Tensor [2, 3] [97, 0, 0, 97, 98, 99])"
proof -
  have c: "tokenizer_contract 0 (char_tokenizer 0)"
    by (rule char_tokenizer_contract)
  have r: "collate_pile [[''text'' \<mapsto> ''a''], [''text'' \<mapsto> ''abc'']] (char_tokenizer 0) 0 =
       (Inr (Tensor [2, 3] [97, 0, 0, 97, 98, 99], Tensor [2, 3] [1, 0, 0, 1, 1, 1]), 1)"
    by (simp add: collate_pile_def getitem_def char_tokenizer_def)
  from collate_pile_respects_contract[OF c r] c r show ?thesis
    by (simp add: batch_aligned_def)
qed

subsection \<open>Both collators\<close>

text \<open>
  C10. Each collator reads one field only. Two batches of the same length whose items agree
  one by one on \<^verbatim>\<open>"tokens"\<close> get the same result from \<^verbatim>\<open>collate_neel_c4_tokenized\<close>; two
  batches whose items agree one by one on \<^verbatim>\<open>"text"\<close> get the same result from
  \<^verbatim>\<open>collate_pile\<close> with the same tokenizer in the same state. Other fields do not matter.
\<close>

theorem collators_read_one_field:
  "(list_all2 (\<lambda>x y. x ''tokens'' = y ''tokens'') xs ys \<longrightarrow>
      collate_neel_c4_tokenized xs = collate_neel_c4_tokenized ys)
   \<and> (list_all2 (\<lambda>x y. x ''text'' = y ''text'') us vs \<longrightarrow>
      collate_pile us tokenizer s = collate_pile vs tokenizer s)"
  by (auto simp: collate_neel_c4_tokenized_def collate_pile_def dest: field_of_each_agree)

theorem collators_read_one_field_witness:
  "collate_neel_c4_tokenized [[''tokens'' \<mapsto> [1, 2], ''ids'' \<mapsto> [9]], [''tokens'' \<mapsto> [3, 4]]]
     = collate_neel_c4_tokenized [[''tokens'' \<mapsto> [1, 2]], [''tokens'' \<mapsto> [3, 4], ''ids'' \<mapsto> [5, 5]]]
   \<and> collate_pile [[''text'' \<mapsto> ''ab'', ''meta'' \<mapsto> ''x'']] (char_tokenizer 0) 0
     = collate_pile [[''text'' \<mapsto> ''ab'', ''meta'' \<mapsto> ''y'', ''url'' \<mapsto> ''z'']] (char_tokenizer 0) 0"
  using collators_read_one_field
    [of "[[''tokens'' \<mapsto> [1, 2], ''ids'' \<mapsto> [9]], [''tokens'' \<mapsto> [3, 4]]]"
        "[[''tokens'' \<mapsto> [1, 2]], [''tokens'' \<mapsto> [3, 4], ''ids'' \<mapsto> [5, 5]]]"
        "[[''text'' \<mapsto> ''ab'', ''meta'' \<mapsto> ''x'']]"
        "[[''text'' \<mapsto> ''ab'', ''meta'' \<mapsto> ''y'', ''url'' \<mapsto> ''z'']]"
        "char_tokenizer 0" 0]
  by simp

end
